theory Spec2Isabelle
  imports Complex_Main
begin

section \<open>Values shared by the endpoint and the reader\<close>

text \<open>
  A JavaScript exception as the code inspects it: \<open>e.name\<close> and \<open>e.message\<close>.
\<close>

record js_error =
  name :: string
  message :: string

text \<open>
  A property of a parsed JSON body as the code reads it: absent (\<open>undefined\<close>), the JSON
  \<open>null\<close>, or a value. The endpoint's interface is \<open>{ text: string, voice: identifier }\<close>,
  so the value is a string; one element of the list stands for one UTF-16 code unit, which
  is what \<open>.length\<close> counts.
\<close>

datatype 'a property = Undefined | Null | Val 'a

section \<open>The narration endpoint (src/api/generate-speech.ts)\<close>

text \<open>
  What \<open>await req.json()\<close> followed by \<open>const { text, voice } = ...\<close> yields: either the
  two properties, or the exception raised when the body is not JSON or is the JSON value
  \<open>null\<close> (which cannot be destructured).
\<close>

datatype body = Raises js_error | Parsed "string property" "string property"

text \<open>The request as the handler reads it: \<open>req.method\<close> and the body.\<close>

record request =
  http_method :: string
  body :: body

text \<open>
  The fixed texts of the endpoint's error bodies. \<open>TooLong n m\<close> is the message of line 22
  with \<open>text.length = n\<close> and \<open>MAX_CHARS = m\<close> interpolated; \<open>MissingApiKey\<close> is the
  configuration message of line 32; \<open>Message m\<close> is \<open>error.message\<close> of a caught exception
  or the fallback text of line 71.
\<close>

datatype error_text = TooLong nat nat | MissingApiKey | Message string

datatype payload = PlainText string | JsonError error_text | JsonAudio string

record response =
  status :: nat
  payload :: payload

text \<open>
  What the handler does besides answering, in the order it does it: reading the body,
  calling the provider (\<open>ai.models.generateContent\<close>, with the key, the text and the voice
  name), logging a caught exception.
\<close>

datatype server_effect = ReadBody | GenerateContent string string string | ConsoleError js_error

text \<open>
  The server's surroundings: \<open>process.env.API_KEY\<close>, and the provider. The provider is an
  external collaborator; its answer to a call is either an exception or the value of
  \<open>response.candidates?.[0]?.content?.parts?.[0]?.inlineData?.data\<close>.
\<close>

record server_env =
  API_KEY :: "string option"
  generateContent :: "string \<Rightarrow> string \<Rightarrow> string \<Rightarrow> js_error + string option"

definition MAX_CHARS :: nat where
  "MAX_CHARS = 3000"

definition falsy :: "string property \<Rightarrow> bool" where
  "falsy t = (case t of Undefined \<Rightarrow> True | Null \<Rightarrow> True | Val s \<Rightarrow> s = [])"

text \<open>
  \<open>text.length\<close>: reading a property of \<open>undefined\<close> or \<open>null\<close> throws a TypeError (the
  message is the one of V8, the engine of the edge runtime).
\<close>

definition cannot_read_length :: "string \<Rightarrow> js_error" where
  "cannot_read_length what =
     \<lparr>name = ''TypeError'',
      message = ''Cannot read properties of '' @ what @ '' (reading '' @ [CHR 0x27] @ ''length''
                @ [CHR 0x27] @ '')''\<rparr>"

definition text_length :: "string property \<Rightarrow> js_error + nat" where
  "text_length t =
     (case t of
        Undefined \<Rightarrow> Inl (cannot_read_length ''undefined'')
      | Null \<Rightarrow> Inl (cannot_read_length ''null'')
      | Val s \<Rightarrow> Inr (length s))"

text \<open>The \<open>catch\<close> block of lines 68-74.\<close>

definition internal_error :: string where
  "internal_error = ''Error interno del servidor al generar voz.''"

definition caught :: "js_error \<Rightarrow> server_effect list \<Rightarrow> response \<times> server_effect list" where
  "caught e done =
     (\<lparr>status = 500,
       payload = JsonError (Message (if message e = [] then internal_error else message e))\<rparr>,
      done @ [ConsoleError e])"

text \<open>The message of the exception of line 59 (the accented letter as its UTF-8 bytes).\<close>

definition empty_gemini_response :: js_error where
  "empty_gemini_response =
     \<lparr>name = ''Error'',
      message = ''No se pudo generar el audio (Respuesta vac'' @ [CHR 0xC3, CHR 0xAD]
                @ ''a de Gemini)''\<rparr>"

text \<open>\<open>voice || 'Kore'\<close> of line 49.\<close>

definition voiceName :: "string property \<Rightarrow> string" where
  "voiceName v = (case v of Val s \<Rightarrow> (if s = [] then ''Kore'' else s) | _ \<Rightarrow> ''Kore'')"

text \<open>
  The handler. The condition of line 19 is \<open>!text || text.length > MAX_CHARS\<close>: the second
  operand is evaluated only for a truthy text, which is a non-empty string. The message
  of line 22 then evaluates \<open>text.length\<close> again, inside the \<open>try\<close>.
\<close>

definition handler :: "server_env \<Rightarrow> request \<Rightarrow> response \<times> server_effect list" where
  "handler env req =
     (if http_method req \<noteq> ''POST'' then
        (\<lparr>status = 405, payload = PlainText ''Method not allowed''\<rparr>, [])
      else
        (case body req of
           Raises e \<Rightarrow> caught e [ReadBody]
         | Parsed text voice \<Rightarrow>
             if falsy text \<or> (case text of Val s \<Rightarrow> length s > MAX_CHARS | _ \<Rightarrow> False) then
               (case text_length text of
                  Inl e \<Rightarrow> caught e [ReadBody]
                | Inr n \<Rightarrow> (\<lparr>status = 400, payload = JsonError (TooLong n MAX_CHARS)\<rparr>, [ReadBody]))
             else
               (case API_KEY env of
                  None \<Rightarrow> (\<lparr>status = 500, payload = JsonError MissingApiKey\<rparr>, [ReadBody])
                | Some apiKey \<Rightarrow>
                    if apiKey = [] then
                      (\<lparr>status = 500, payload = JsonError MissingApiKey\<rparr>, [ReadBody])
                    else
                      (let t = (case text of Val s \<Rightarrow> s | _ \<Rightarrow> []);
                           call = [ReadBody, GenerateContent apiKey t (voiceName voice)]
                       in case generateContent env apiKey t (voiceName voice) of
                            Inl e \<Rightarrow> caught e call
                          | Inr None \<Rightarrow> caught empty_gemini_response call
                          | Inr (Some d) \<Rightarrow>
                              if d = [] then caught empty_gemini_response call
                              else (\<lparr>status = 200, payload = JsonAudio d\<rparr>, call)))))"

text \<open>Whether a run of the handler contacted the provider.\<close>

fun contacts_provider :: "server_effect list \<Rightarrow> bool" where
  "contacts_provider [] = False"
| "contacts_provider (GenerateContent k t v # es) = True"
| "contacts_provider (e # es) = contacts_provider es"


section \<open>The reader (component App, src/unnamed/part_000)\<close>

subsection \<open>Data\<close>

text \<open>
  A page (\<open>PageData\<close>) and a history entry (\<open>HistoryItem\<close>, whose fields are
  \<open>pageNumber\<close> and \<open>timestamp\<close>; the first is written \<open>item_pageNumber\<close> here to keep
  it apart from the page's). Page numbers and timestamps are JavaScript numbers holding
  integers.
\<close>

record PageData =
  pageNumber :: int
  content :: string

record HistoryItem =
  item_pageNumber :: int
  timestamp :: int

datatype ViewMode = Scroll | Flip

datatype toast_type = ToastError | ToastSuccess | ToastInfo

datatype AudioContextState = Running | Suspended | Closed

datatype direction = Next | Prev

text \<open>
  The callbacks handed to \<open>animatePageTurn\<close>: \<open>CbPlayPage p\<close> is the one of
  \<open>handleAutoAdvance\<close> (line 316), \<open>CbGoto p\<close> the one of \<open>handleNext\<close> and \<open>handlePrev\<close>
  (lines 425-429 and 438-442).
\<close>

datatype callback = CbPlayPage PageData | CbGoto PageData

text \<open>
  The callbacks given to \<open>setTimeout\<close>: the one of \<open>handleAutoAdvance\<close> (line 313), the
  two of \<open>animatePageTurn\<close> (lines 413 and 416).
\<close>

datatype timer = AutoAdvanceTimer PageData | FlipTimer direction callback | FlipIdleTimer

text \<open>
  What the component does to the world outside its state, in the order it does it.
  Abort controllers and audio source nodes are numbered in the order of their creation.
  \<open>GenerateSpeech text voice format c sample\<close> is the call of \<open>generateSpeech\<close> (the cloud
  path, lines 241-247) with the signal of controller \<open>c\<close>; \<open>TtsSpeak text voice rate\<close> is
  the call of \<open>ttsService.speak\<close> (the on-device provider, line 288);
  \<open>LocalStorageSet h\<close> is \<open>localStorage.setItem('book_history', ...)\<close> of line 186.
\<close>

datatype effect =
    AbortSignal nat
  | LocalStorageSet "HistoryItem list"
  | TtsCancel
  | TtsSpeak string "string option" real
  | TtsPause
  | TtsResume
  | SourceStop nat
  | SourceDisconnect nat
  | SourceStart nat real
  | SourceSetRate nat real
  | AudioContextNew
  | AudioContextResume
  | AudioContextSuspend
  | GenerateSpeech string string string nat "string option"
  | SetTimeout nat timer
  | ScrollIntoView int
  | PlayPageTurnSound
  | LogError js_error

text \<open>
  The component: its React state variables and its refs (\<open>audioCtxRef\<close>,
  \<open>audioSourceRef\<close>, \<open>abortControllerRef\<close>), and the objects the refs point to:
  \<open>controllers\<close> and \<open>sources\<close> count the abort controllers and source nodes created so
  far, \<open>aborted\<close> holds the controllers whose signal is aborted, and the value of
  \<open>audioCtxRef\<close> is the state of the audio context. \<open>activePageRef\<close> and \<open>pagesRef\<close>
  are copied from \<open>activePage\<close> and \<open>pages\<close> after every render (lines 112-118), so they
  are read here as these two. \<open>AudioContextClass\<close> is the browser's constructor (line
  225): \<open>None\<close> where the browser has none, else the state in which a new context
  starts.

  \<open>historyUpdates\<close> holds the updater functions given to \<open>setHistory\<close> that React has
  not run yet, each as the page number it was made for (lines 182-188). React runs them
  when it next renders, which is after the function that queued them has run to its end
  or to its first \<open>await\<close>.

  A function of the component reads the state variables of the render that created it.
  So the functions below take two records: \<open>r\<close>, the state at that render, from which
  the state variables are read, and \<open>s\<close>, the current state, in which the refs are read
  and every write is made. A handler called by the user interface runs with \<open>r = s\<close>.
  The document is the one of the last render, too: where a function looks an element
  up, it takes \<open>d\<close>, the state in which the running event began.
\<close>

record App =
  isLanding :: bool
  pages :: "PageData list"
  activePage :: "int option"
  toast :: "(string \<times> toast_type) option"
  viewMode :: ViewMode
  flipState :: string
  isPlaying :: bool
  isGeneratingAudio :: bool
  isPaused :: bool
  selectedVoiceURI :: "string option"
  playbackRate :: real
  userVoiceSample :: "string option"
  useCloudTTS :: bool
  audioFormat :: string
  showIndex :: bool
  showHistory :: bool
  history :: "HistoryItem list"
  historyUpdates :: "int list"
  audioCtxRef :: "AudioContextState option"
  audioSourceRef :: "nat option"
  abortControllerRef :: "nat option"
  controllers :: nat
  sources :: nat
  aborted :: "nat set"
  AudioContextClass :: "AudioContextState option"

text \<open>The state of the first render (the \<open>useState\<close> and \<open>useRef\<close> initial values).\<close>

definition initialApp :: "AudioContextState option \<Rightarrow> App" where
  "initialApp cls =
     \<lparr>isLanding = True, pages = [], activePage = None, toast = None, viewMode = Scroll,
      flipState = ''idle'', isPlaying = False, isGeneratingAudio = False, isPaused = False,
      selectedVoiceURI = None, playbackRate = 1, userVoiceSample = None,
      useCloudTTS = True, audioFormat = ''MP3'', showIndex = False, showHistory = False,
      history = [], historyUpdates = [], audioCtxRef = None, audioSourceRef = None,
      abortControllerRef = None, controllers = 0, sources = 0, aborted = {},
      AudioContextClass = cls\<rparr>"

subsection \<open>History\<close>

text \<open>
  The updater that \<open>addToHistory\<close> gives to \<open>setHistory\<close> (lines 182-188), as a function
  of the history it is run on, with \<open>Date.now()\<close> as \<open>now\<close>. \<open>slice(0, 10)\<close> keeps the
  first ten entries.
\<close>

definition addToHistory :: "HistoryItem list \<Rightarrow> int \<Rightarrow> int \<Rightarrow> HistoryItem list" where
  "addToHistory prev pn now =
     (let filtered = filter (\<lambda>item. item_pageNumber item \<noteq> pn) prev;
          newEntry = \<lparr>item_pageNumber = pn, timestamp = now\<rparr>
      in take 10 (newEntry # filtered))"

text \<open>
  A render at time \<open>now\<close>: React runs the queued updaters in order, each on the result
  of the one before; each stores the history it returns (line 186).
\<close>

fun runHistoryUpdates ::
  "int \<Rightarrow> int list \<Rightarrow> HistoryItem list \<Rightarrow> HistoryItem list \<times> effect list" where
  "runHistoryUpdates now [] prev = (prev, [])"
| "runHistoryUpdates now (pn # pns) prev =
     (let newHistory = addToHistory prev pn now;
          (h, es) = runHistoryUpdates now pns newHistory
      in (h, LocalStorageSet newHistory # es))"

definition render :: "int \<Rightarrow> App \<Rightarrow> App \<times> effect list" where
  "render now s =
     (let (h, es) = runHistoryUpdates now (historyUpdates s) (history s)
      in (s\<lparr>history := h, historyUpdates := []\<rparr>, es))"

subsection \<open>Playing a page\<close>

text \<open>\<open>stopCloudAudio\<close> (lines 191-197).\<close>

definition stopCloudAudio :: "App \<Rightarrow> App \<times> effect list" where
  "stopCloudAudio s =
     (case audioSourceRef s of
        None \<Rightarrow> (s, [])
      | Some src \<Rightarrow> (s\<lparr>audioSourceRef := None\<rparr>, [SourceStop src, SourceDisconnect src]))"

text \<open>
  The enum \<open>VoiceName\<close> is declared in \<open>./types\<close>, which is not among the sources; its
  member \<open>Kore\<close> is taken to be the string the endpoint uses as its default voice.
\<close>

definition VoiceName_Kore :: string where
  "VoiceName_Kore = ''Kore''"

text \<open>Lines 238-239 and the last argument of line 246.\<close>

definition isCustomVoice :: "App \<Rightarrow> bool" where
  "isCustomVoice r = (selectedVoiceURI r = Some ''custom-voice'')"

definition voiceToUse :: "App \<Rightarrow> string" where
  "voiceToUse r =
     (if isCustomVoice r then ''custom-voice''
      else (case selectedVoiceURI r of
              None \<Rightarrow> VoiceName_Kore
            | Some v \<Rightarrow> if v = [] then VoiceName_Kore else v))"

definition sampleToSend :: "App \<Rightarrow> string option" where
  "sampleToSend r = (if isCustomVoice r then userVoiceSample r else None)"

text \<open>The call of lines 241-247, made for \<open>page\<close> with the signal of controller \<open>c\<close>.\<close>

definition callGenerateSpeech :: "App \<Rightarrow> nat \<Rightarrow> PageData \<Rightarrow> effect" where
  "callGenerateSpeech r c page =
     GenerateSpeech (content page) (voiceToUse r) (audioFormat r) c (sampleToSend r)"

text \<open>The exceptions thrown on lines 229 and 249 (the accented letter as its UTF-8 bytes).\<close>

definition no_web_audio :: js_error where
  "no_web_audio = \<lparr>name = ''Error'', message = ''Tu navegador no soporta Audio Web.''\<rparr>"

definition no_audio_generated :: js_error where
  "no_audio_generated =
     \<lparr>name = ''Error'', message = ''No se gener'' @ [CHR 0xC3, CHR 0xB3] @ '' audio''\<rparr>"

text \<open>\<open>showToast\<close> (lines 89-91).\<close>

definition showToast :: "string \<Rightarrow> toast_type \<Rightarrow> App \<Rightarrow> App" where
  "showToast m ty s = s\<lparr>toast := Some (m, ty)\<rparr>"

text \<open>
  The \<open>catch\<close> block (lines 273-280) and the \<open>finally\<close> block (lines 280-284) of the
  request made with controller \<open>c\<close>. \<open>is_abort\<close> is the test of line 274.
\<close>

definition is_abort :: "js_error \<Rightarrow> bool" where
  "is_abort e = (name e = ''AbortError'' \<or> message e = ''Aborted'')"

definition playPage_catch :: "js_error \<Rightarrow> App \<Rightarrow> App \<times> effect list" where
  "playPage_catch e s =
     (if is_abort e then (s, [])
      else (showToast (if message e = [] then ''Error generando audio.'' else message e)
              ToastError (s\<lparr>isPlaying := False\<rparr>),
            [LogError e]))"

definition playPage_finally :: "nat \<Rightarrow> App \<Rightarrow> App" where
  "playPage_finally c s =
     (if abortControllerRef s = Some c then s\<lparr>isGeneratingAudio := False\<rparr> else s)"

text \<open>
  \<open>playPage\<close> (lines 205-303) up to its first suspension, in three parts.

  Lines 206-217, common to both modes: the pending controller is aborted and a new one,
  number \<open>controllers s\<close>, takes its place; the updater for the page is given to
  \<open>setHistory\<close>; on-device speech is cancelled and the cloud audio stopped.
\<close>

definition playPage_start :: "PageData \<Rightarrow> App \<Rightarrow> App \<times> effect list" where
  "playPage_start page s =
     (let e1 = (case abortControllerRef s of None \<Rightarrow> [] | Some old \<Rightarrow> [AbortSignal old]);
          s1 = s\<lparr>aborted := (case abortControllerRef s of
                                None \<Rightarrow> aborted s | Some old \<Rightarrow> insert old (aborted s)),
                 controllers := Suc (controllers s),
                 abortControllerRef := Some (controllers s)\<rparr>;
          s2 = s1\<lparr>historyUpdates := historyUpdates s1 @ [pageNumber page]\<rparr>;
          (s3, e3) = stopCloudAudio s2;
          s4 = s3\<lparr>isPaused := False, activePage := Some (pageNumber page)\<rparr>
      in (s4, e1 @ [TtsCancel] @ e3))"

text \<open>
  Lines 224-231: the audio context is created if there is none, which fails where the
  browser has no constructor.
\<close>

definition newAudioContext :: "App \<Rightarrow> js_error + App \<times> effect list" where
  "newAudioContext s =
     (case audioCtxRef s of
        Some st \<Rightarrow> Inr (s, [])
      | None \<Rightarrow>
          (case AudioContextClass s of
             Some st \<Rightarrow> Inr (s\<lparr>audioCtxRef := Some st\<rparr>, [AudioContextNew])
           | None \<Rightarrow> Inl no_web_audio))"

text \<open>
  Lines 220-247, the cloud branch for the request with controller \<open>c\<close>. Where the audio
  context could not be made, the \<open>catch\<close> and \<open>finally\<close> blocks run at once. Where the
  context is suspended, \<open>resume()\<close> is called and awaited (line 234): the rest is
  \<open>playPage_resumed\<close>. Otherwise \<open>generateSpeech\<close> is called (line 241) and its result
  awaited: the rest is \<open>playPage_settled\<close>.
\<close>

definition playPage_cloud :: "App \<Rightarrow> nat \<Rightarrow> PageData \<Rightarrow> App \<Rightarrow> App \<times> effect list" where
  "playPage_cloud r c page s =
     (let s5 = s\<lparr>isGeneratingAudio := True, isPlaying := False\<rparr> in
      case newAudioContext s5 of
        Inl e \<Rightarrow> (let (s6, e6) = playPage_catch e s5 in (playPage_finally c s6, e6))
      | Inr (s6, e6) \<Rightarrow>
          if audioCtxRef s6 = Some Suspended then (s6, e6 @ [AudioContextResume])
          else (s6, e6 @ [callGenerateSpeech r c page]))"

text \<open>
  The rest of the cloud request with controller \<open>c\<close> when the awaited \<open>resume()\<close> has
  settled: \<open>res\<close> is its exception, if any. A resumed context is running. The signal
  is not looked at before \<open>generateSpeech\<close> is called.
\<close>

definition playPage_resumed ::
  "App \<Rightarrow> nat \<Rightarrow> PageData \<Rightarrow> js_error option \<Rightarrow> App \<Rightarrow> App \<times> effect list" where
  "playPage_resumed r c page res s =
     (case res of
        Some e \<Rightarrow> (let (s1, e1) = playPage_catch e s in (playPage_finally c s1, e1))
      | None \<Rightarrow>
          (s\<lparr>audioCtxRef := map_option (\<lambda>st. Running) (audioCtxRef s)\<rparr>,
           [callGenerateSpeech r c page]))"

text \<open>
  The whole: in on-device mode (lines 286-302) \<open>ttsService.speak\<close> is called, whose two
  callbacks are \<open>speak_onEnd\<close> and \<open>speak_onError\<close> below.
\<close>

definition playPage :: "App \<Rightarrow> PageData \<Rightarrow> App \<Rightarrow> App \<times> effect list" where
  "playPage r page s =
     (let (s4, pre) = playPage_start page s in
      if useCloudTTS r then
        (let (s5, es) = playPage_cloud r (controllers s) page s4 in (s5, pre @ es))
      else
        (s4\<lparr>isPlaying := True\<rparr>,
         pre @ [TtsSpeak (content page) (selectedVoiceURI r) (playbackRate r)]))"

text \<open>
  \<open>handleAutoAdvance\<close> (lines 305-325). \<open>findIndex\<close> is the array method, with \<open>None\<close>
  for its \<open>-1\<close>.
\<close>

fun findIndex :: "PageData list \<Rightarrow> int \<Rightarrow> nat option" where
  "findIndex [] n = None"
| "findIndex (p # ps) n =
     (if pageNumber p = n then Some 0 else map_option Suc (findIndex ps n))"

definition handleAutoAdvance :: "App \<Rightarrow> App \<times> effect list" where
  "handleAutoAdvance s =
     (case activePage s of
        None \<Rightarrow> (s, [])
      | Some currentPageNum \<Rightarrow>
          (case findIndex (pages s) currentPageNum of
             None \<Rightarrow> (s, [])
           | Some currentIndex \<Rightarrow>
               if int currentIndex < int (length (pages s)) - 1
               then (s, [SetTimeout 500 (AutoAdvanceTimer (pages s ! (currentIndex + 1)))])
               else (s, [])))"

text \<open>
  The rest of the cloud request made with controller \<open>c\<close> (lines 249-284), run when its
  awaited calls have settled. \<open>gen\<close> is the outcome of \<open>generateSpeech\<close>: an exception, or
  the value it resolves to (\<open>None\<close> for \<open>null\<close> or \<open>undefined\<close>). \<open>dec\<close> is the exception
  of decoding the audio (lines 251-252), if any; it is consulted only when there is
  audio to decode. \<open>settle_throws\<close> is the exception that reaches the \<open>catch\<close> block
  before the test of line 254.
\<close>

definition settle_throws :: "js_error + string option \<Rightarrow> js_error option \<Rightarrow> js_error option" where
  "settle_throws gen dec =
     (case gen of
        Inl e \<Rightarrow> Some e
      | Inr None \<Rightarrow> Some no_audio_generated
      | Inr (Some b64Data) \<Rightarrow> if b64Data = [] then Some no_audio_generated else dec)"

definition playPage_settled ::
  "App \<Rightarrow> nat \<Rightarrow> js_error + string option \<Rightarrow> js_error option \<Rightarrow> App \<Rightarrow> App \<times> effect list" where
  "playPage_settled r c gen dec s =
     (case settle_throws gen dec of
        Some e \<Rightarrow> (let (s1, e1) = playPage_catch e s in (playPage_finally c s1, e1))
      | None \<Rightarrow>
          if c \<in> aborted s then (playPage_finally c s, [])
          else
            (let source = sources s;
                 s1 = s\<lparr>sources := Suc source, audioSourceRef := Some source,
                        isPlaying := True\<rparr>
             in (playPage_finally c s1, [SourceStart source (playbackRate r)])))"

text \<open>\<open>source.onended\<close> of the request made with controller \<open>c\<close> (lines 261-266).\<close>

definition source_onended :: "nat \<Rightarrow> App \<Rightarrow> App \<times> effect list" where
  "source_onended c s =
     (if c \<notin> aborted s then handleAutoAdvance (s\<lparr>isPlaying := False\<rparr>) else (s, []))"

text \<open>The two callbacks given to \<open>ttsService.speak\<close> (lines 292-300).\<close>

definition speak_onEnd :: "App \<Rightarrow> App \<times> effect list" where
  "speak_onEnd s = handleAutoAdvance (s\<lparr>isPlaying := False\<rparr>)"

definition speak_onError :: "js_error \<Rightarrow> App \<Rightarrow> App \<times> effect list" where
  "speak_onError e s =
     (showToast ''Error en lector local'' ToastError (s\<lparr>isPlaying := False\<rparr>), [LogError e])"

text \<open>
  \<open>scrollToPage\<close> (lines 327-334). The element \<open>page-N\<close> is in the document when the
  last render was the reader's, in scroll view, with a page of that number (lines
  466 and 714-717).
\<close>

definition hasPageElement :: "App \<Rightarrow> int \<Rightarrow> bool" where
  "hasPageElement d pageNum =
     (\<not> isLanding d \<and> viewMode d = Scroll \<and> pageNum \<in> set (map pageNumber (pages d)))"

definition scrollToPage :: "App \<Rightarrow> App \<Rightarrow> int \<Rightarrow> effect list" where
  "scrollToPage r d pageNum =
     (if viewMode r = Scroll \<and> hasPageElement d pageNum then [ScrollIntoView pageNum] else [])"

text \<open>Running a callback of \<open>animatePageTurn\<close>.\<close>

definition run_callback :: "App \<Rightarrow> App \<Rightarrow> callback \<Rightarrow> App \<Rightarrow> App \<times> effect list" where
  "run_callback r d cb s =
     (case cb of
        CbPlayPage p \<Rightarrow> playPage r p s
      | CbGoto p \<Rightarrow>
          (let (s1, e1) = (if isPlaying r then playPage r p s
                           else (s\<lparr>activePage := Some (pageNumber p)\<rparr>, []))
           in (s1, e1 @ scrollToPage r d (pageNumber p))))"

text \<open>\<open>animatePageTurn\<close> (lines 406-418) and its two timers.\<close>

definition animatePageTurn ::
  "App \<Rightarrow> App \<Rightarrow> direction \<Rightarrow> callback \<Rightarrow> App \<Rightarrow> App \<times> effect list" where
  "animatePageTurn r d dir cb s =
     (if viewMode r = Scroll then
        (let (s1, e1) = run_callback r d cb s in (s1, PlayPageTurnSound # e1))
      else
        (s\<lparr>flipState := (if dir = Next then ''flipping-out-left'' else ''flipping-out-right'')\<rparr>,
         [PlayPageTurnSound, SetTimeout 300 (FlipTimer dir cb)]))"

text \<open>
  A timer firing, in the state \<open>s\<close>. The timer of \<open>handleAutoAdvance\<close> (lines 313-322)
  plays the next page at once where the view mode of its render is not flip, and turns
  the page first where it is.
\<close>

definition timer_fired :: "App \<Rightarrow> timer \<Rightarrow> App \<Rightarrow> App \<times> effect list" where
  "timer_fired r t s =
     (case t of
        AutoAdvanceTimer nextPage \<Rightarrow>
          if viewMode r = Flip then animatePageTurn r s Next (CbPlayPage nextPage) s
          else (let (s1, e1) = playPage r nextPage s
                in (s1, e1 @ scrollToPage r s (pageNumber nextPage)))
      | FlipTimer dir cb \<Rightarrow>
          (let (s1, e1) = run_callback r s cb s
           in (s1\<lparr>flipState := (if dir = Next then ''flipping-in-right''
                                 else ''flipping-in-left'')\<rparr>,
               e1 @ [SetTimeout 400 FlipIdleTimer]))
      | FlipIdleTimer \<Rightarrow> (s\<lparr>flipState := ''idle''\<rparr>, []))"

subsection \<open>The handlers of the user interface\<close>

text \<open>\<open>pages.find(p => p.pageNumber === n)\<close>.\<close>

definition findPage :: "PageData list \<Rightarrow> int option \<Rightarrow> PageData option" where
  "findPage ps n = (case n of None \<Rightarrow> None | Some k \<Rightarrow> find (\<lambda>p. pageNumber p = k) ps)"

text \<open>
  \<open>handleTogglePlay\<close> (lines 336-350). In cloud mode with an audio context, \<open>suspend()\<close>
  or \<open>resume()\<close> of the context is called and awaited: the rest is \<open>togglePlay_settled\<close>,
  with \<open>paused\<close> the value that is then given to \<open>setIsPaused\<close> and \<open>res\<close> the exception
  of the awaited call, if any, which nothing catches.
\<close>

definition handleTogglePlay :: "App \<Rightarrow> App \<times> effect list" where
  "handleTogglePlay s =
     (if isPlaying s \<and> \<not> isPaused s then
        (if useCloudTTS s \<and> audioCtxRef s \<noteq> None
         then (s, [AudioContextSuspend])
         else (s\<lparr>isPaused := True\<rparr>, [TtsPause]))
      else if isPlaying s \<and> isPaused s then
        (if useCloudTTS s \<and> audioCtxRef s \<noteq> None
         then (s, [AudioContextResume])
         else (s\<lparr>isPaused := False\<rparr>, [TtsResume]))
      else
        (case findPage (pages s) (activePage s) of
           Some currentPage \<Rightarrow> playPage s currentPage s
         | None \<Rightarrow> (s, [])))"

definition togglePlay_settled :: "bool \<Rightarrow> js_error option \<Rightarrow> App \<Rightarrow> App \<times> effect list" where
  "togglePlay_settled paused res s =
     (case res of
        Some e \<Rightarrow> (s, [])
      | None \<Rightarrow>
          (s\<lparr>audioCtxRef := map_option (\<lambda>st. if paused then Suspended else Running)
                               (audioCtxRef s),
             isPaused := paused\<rparr>, []))"

text \<open>\<open>handlePageSelect\<close> (lines 352-355).\<close>

definition handlePageSelect :: "PageData \<Rightarrow> App \<Rightarrow> App \<times> effect list" where
  "handlePageSelect page s =
     (let (s1, e1) = playPage s page s
      in (s1, e1 @ (if viewMode s = Scroll then scrollToPage s s (pageNumber page) else [])))"

text \<open>\<open>handleIndexJump\<close> and \<open>handleHistoryJump\<close> (lines 357-370).\<close>

definition handleIndexJump :: "int \<Rightarrow> App \<Rightarrow> App \<times> effect list" where
  "handleIndexJump n s =
     (case findPage (pages s) (Some n) of
        None \<Rightarrow> (s, [])
      | Some targetPage \<Rightarrow>
          (let (s1, e1) = (if isPlaying s then playPage s targetPage s
                           else (s\<lparr>activePage := Some (pageNumber targetPage)\<rparr>, []))
           in (s1\<lparr>showIndex := False\<rparr>, e1 @ scrollToPage s s (pageNumber targetPage))))"

definition handleHistoryJump :: "int \<Rightarrow> App \<Rightarrow> App \<times> effect list" where
  "handleHistoryJump n s =
     (let (s1, e1) = handleIndexJump n s in (s1\<lparr>showHistory := False\<rparr>, e1))"

text \<open>
  \<open>handleSpeedChange\<close> (lines 372-380). On line 376 \<open>activePage\<close> is tested for
  truthiness: \<open>null\<close> and \<open>0\<close> fail it. The \<open>playPage\<close> it calls is the one of the render
  in which the handler runs, so it reads the state variables as they were before
  \<open>setPlaybackRate\<close>.
\<close>

definition handleSpeedChange :: "real \<Rightarrow> App \<Rightarrow> App \<times> effect list" where
  "handleSpeedChange newRate s =
     (let s1 = s\<lparr>playbackRate := newRate\<rparr> in
      if useCloudTTS s \<and> audioSourceRef s \<noteq> None then
        (case audioSourceRef s of
           Some src \<Rightarrow> (s1, [SourceSetRate src newRate])
         | None \<Rightarrow> (s1, []))
      else if isPlaying s \<and> \<not> isPaused s \<and> activePage s \<noteq> None \<and> activePage s \<noteq> Some 0 then
        (case findPage (pages s) (activePage s) of
           Some currentPage \<Rightarrow> playPage s currentPage s1
         | None \<Rightarrow> (s1, []))
      else (s1, []))"

text \<open>\<open>handleToggleCloudMode\<close> (lines 382-391).\<close>

definition handleToggleCloudMode :: "bool \<Rightarrow> App \<Rightarrow> App \<times> effect list" where
  "handleToggleCloudMode useCloud s =
     (let (s1, e1) = stopCloudAudio s;
          s2 = s1\<lparr>isPlaying := False, isGeneratingAudio := False, isPaused := False,
                  useCloudTTS := useCloud, selectedVoiceURI := None\<rparr>
      in (showToast (if useCloud then ''Modo IA activado'' else ''Modo Offline activado'')
            ToastInfo s2,
          TtsCancel # e1))"

text \<open>
  \<open>handleRecordVoice\<close> (lines 394-404), with an accented capital of the first message
  as its UTF-8 bytes.
\<close>

definition handleRecordVoice :: "string option \<Rightarrow> App \<Rightarrow> App \<times> effect list" where
  "handleRecordVoice base64Audio s =
     (case base64Audio of
        Some a \<Rightarrow>
          if a = [] then
            (showToast ''Voz clonada eliminada.'' ToastInfo
               (s\<lparr>userVoiceSample := None, selectedVoiceURI := None\<rparr>), [])
          else
            (showToast (''Voz clonada guardada. '' @ [CHR 0xC3, CHR 0x9A] @ ''sala para leer.'')
               ToastSuccess
               (s\<lparr>userVoiceSample := Some a, selectedVoiceURI := Some ''custom-voice''\<rparr>), [])
      | None \<Rightarrow>
          (showToast ''Voz clonada eliminada.'' ToastInfo
             (s\<lparr>userVoiceSample := None, selectedVoiceURI := None\<rparr>), []))"

text \<open>
  \<open>handleNext\<close> and \<open>handlePrev\<close> (lines 420-444). \<open>currentIndex\<close> is the result of
  \<open>findIndex\<close> as a number, \<open>-1\<close> when no page has the active number.
\<close>

definition currentIndexOf :: "App \<Rightarrow> int \<Rightarrow> int" where
  "currentIndexOf s a = (case findIndex (pages s) a of None \<Rightarrow> - 1 | Some i \<Rightarrow> int i)"

definition handleNext :: "App \<Rightarrow> App \<times> effect list" where
  "handleNext s =
     (case activePage s of
        None \<Rightarrow> (s, [])
      | Some a \<Rightarrow>
          if currentIndexOf s a < int (length (pages s)) - 1
          then animatePageTurn s s Next (CbGoto (pages s ! nat (currentIndexOf s a + 1))) s
          else (s, []))"

definition handlePrev :: "App \<Rightarrow> App \<times> effect list" where
  "handlePrev s =
     (case activePage s of
        None \<Rightarrow> (s, [])
      | Some a \<Rightarrow>
          if currentIndexOf s a > 0
          then animatePageTurn s s Prev (CbGoto (pages s ! nat (currentIndexOf s a - 1))) s
          else (s, []))"

text \<open>
  A book arriving. \<open>loadDemoBook\<close> (lines 166-179), at the firing of its timer:
  \<open>parsedPages\<close> is what \<open>parseBookContent\<close> returned. \<open>handleFileUpload\<close> (lines
  137-164): \<open>NoFile\<close> when no file was chosen, \<open>NotPdf\<close> for a file of another type,
  \<open>Extracted ps tocEmpty\<close> for the pages \<open>parsePDF\<close> returned and whether the table of
  contents it returned is empty, \<open>Failed e\<close> for its exception. The two parsers are not
  among the sources. Accented letters are written as their UTF-8 bytes.
\<close>

definition loadDemoBook :: "PageData list \<Rightarrow> App \<Rightarrow> App \<times> effect list" where
  "loadDemoBook parsedPages s =
     (let s1 = s\<lparr>pages := parsedPages\<rparr> in
      case parsedPages of
        [] \<Rightarrow> (s1, [])
      | p # _ \<Rightarrow>
          (showToast ''Libro demo cargado'' ToastSuccess
             (s1\<lparr>activePage := Some (pageNumber p), isLanding := False\<rparr>), []))"

datatype upload = NoFile | NotPdf | Extracted "PageData list" bool | Failed js_error

definition handleFileUpload :: "upload \<Rightarrow> App \<Rightarrow> App \<times> effect list" where
  "handleFileUpload u s =
     (case u of
        NoFile \<Rightarrow> (s, [])
      | NotPdf \<Rightarrow>
          (showToast (''Por favor sube un archivo PDF v'' @ [CHR 0xC3, CHR 0xA1] @ ''lido.'')
             ToastError s, [])
      | Extracted extractedPages tocEmpty \<Rightarrow>
          (let s1 = s\<lparr>pages := extractedPages\<rparr> in
           case extractedPages of
             [] \<Rightarrow>
               (showToast (''No se encontr'' @ [CHR 0xC3, CHR 0xB3] @ '' texto en este PDF.'')
                  ToastError s1, [])
           | p # _ \<Rightarrow>
               (showToast (if tocEmpty then ''Libro cargado'' else ''Libro cargado correctamente'')
                  ToastSuccess (s1\<lparr>activePage := Some (pageNumber p), isLanding := False\<rparr>), []))
      | Failed e \<Rightarrow>
          (showToast (if message e = [] then ''Error al leer el archivo.'' else message e)
             ToastError s, [LogError e]))"

text \<open>
  The cleanup of the component (lines 104-109), run when it is unmounted.
\<close>

definition cleanup :: "App \<Rightarrow> App \<times> effect list" where
  "cleanup s =
     (let (s1, e1) = stopCloudAudio s;
          s2 = (case audioCtxRef s1 of None \<Rightarrow> s1 | Some st \<Rightarrow> s1\<lparr>audioCtxRef := Some Closed\<rparr>);
          s3 = (case abortControllerRef s2 of
                  None \<Rightarrow> s2 | Some c \<Rightarrow> s2\<lparr>aborted := insert c (aborted s2)\<rparr>)
      in (s3, TtsCancel # e1
              @ (case abortControllerRef s of None \<Rightarrow> [] | Some c \<Rightarrow> [AbortSignal c])))"

subsection \<open>Sessions\<close>

text \<open>
  Everything that can happen to the mounted component: the user's requests, and the
  callbacks of earlier requests, each with the state \<open>r\<close> of the render that created it.
  The setters passed directly to the interface (\<open>setViewMode\<close>, \<open>setSelectedVoiceURI\<close>,
  \<open>setAudioFormat\<close>, \<open>setIsLanding(true)\<close> of the exit button, and \<open>setToast(null)\<close> when
  a notification closes) are events of their own, and so is the history stored by an
  earlier session arriving after the first render (lines 94-102).
\<close>

datatype event =
    HistoryLoaded "HistoryItem list"
  | DemoBookLoaded "PageData list"
  | FileUpload upload
  | ExitToLanding
  | CloseToast
  | TogglePlay
  | TogglePlaySettled bool "js_error option"
  | PageSelect PageData
  | IndexJump int
  | HistoryJump int
  | SpeedChange real
  | ToggleCloudMode bool
  | RecordVoice "string option"
  | NextPage
  | PrevPage
  | SetViewMode ViewMode
  | SetSelectedVoiceURI "string option"
  | SetAudioFormat string
  | Resumed App nat PageData "js_error option"
  | Settled App nat "js_error + string option" "js_error option"
  | Ended nat
  | SpeakEnd
  | SpeakError js_error
  | TimerFired App timer

definition handle :: "event \<Rightarrow> App \<Rightarrow> App \<times> effect list" where
  "handle ev s =
     (case ev of
        HistoryLoaded stored \<Rightarrow> (s\<lparr>history := stored\<rparr>, [])
      | DemoBookLoaded ps \<Rightarrow> loadDemoBook ps s
      | FileUpload u \<Rightarrow> handleFileUpload u s
      | ExitToLanding \<Rightarrow> (s\<lparr>isLanding := True\<rparr>, [])
      | CloseToast \<Rightarrow> (s\<lparr>toast := None\<rparr>, [])
      | TogglePlay \<Rightarrow> handleTogglePlay s
      | TogglePlaySettled paused res \<Rightarrow> togglePlay_settled paused res s
      | PageSelect page \<Rightarrow> handlePageSelect page s
      | IndexJump n \<Rightarrow> handleIndexJump n s
      | HistoryJump n \<Rightarrow> handleHistoryJump n s
      | SpeedChange rate \<Rightarrow> handleSpeedChange rate s
      | ToggleCloudMode useCloud \<Rightarrow> handleToggleCloudMode useCloud s
      | RecordVoice a \<Rightarrow> handleRecordVoice a s
      | NextPage \<Rightarrow> handleNext s
      | PrevPage \<Rightarrow> handlePrev s
      | SetViewMode m \<Rightarrow> (s\<lparr>viewMode := m\<rparr>, [])
      | SetSelectedVoiceURI v \<Rightarrow> (s\<lparr>selectedVoiceURI := v\<rparr>, [])
      | SetAudioFormat f \<Rightarrow> (s\<lparr>audioFormat := f\<rparr>, [])
      | Resumed r c page res \<Rightarrow> playPage_resumed r c page res s
      | Settled r c gen dec \<Rightarrow> playPage_settled r c gen dec s
      | Ended c \<Rightarrow> source_onended c s
      | SpeakEnd \<Rightarrow> speak_onEnd s
      | SpeakError e \<Rightarrow> speak_onError e s
      | TimerFired r t \<Rightarrow> timer_fired r t s)"

text \<open>
  An event at time \<open>now\<close>: its function runs, then React renders.
\<close>

definition fire :: "int \<Rightarrow> event \<Rightarrow> App \<Rightarrow> App \<times> effect list" where
  "fire now ev s =
     (let (s1, e1) = handle ev s; (s2, e2) = render now s1 in (s2, e1 @ e2))"

text \<open>The states a session can be in: the first render's, and the state after any event.\<close>

inductive reachable :: "App \<Rightarrow> bool" where
  initial: "reachable (initialApp cls)"
| event: "reachable s \<Longrightarrow> reachable (fst (fire now ev s))"

text \<open>The state of the session as the interface shows it.\<close>

datatype playback = Idle | Generating | Playing | Paused

definition session_state :: "App \<Rightarrow> playback" where
  "session_state s =
     (if isGeneratingAudio s then Generating
      else if isPlaying s then (if isPaused s then Paused else Playing)
      else Idle)"

text \<open>The calls of a provider among what was done: of the cloud path, of either.\<close>

definition cloud_calls :: "effect list \<Rightarrow> effect list" where
  "cloud_calls es =
     filter (\<lambda>e. case e of GenerateSpeech t v f c a \<Rightarrow> True | _ \<Rightarrow> False) es"


text \<open>
  The audio context a cloud request will use (lines 224-231): the one there is, or the
  one the browser's constructor makes.
\<close>

definition contextFound :: "App \<Rightarrow> AudioContextState option" where
  "contextFound s = (case audioCtxRef s of Some st \<Rightarrow> Some st | None \<Rightarrow> AudioContextClass s)"

subsection \<open>A session for the examples\<close>

text \<open>
  A book of two pages, loaded in a browser that has an audio context; \<open>generating\<close> is
  the session after a play request for the first page at time 100, in cloud mode, with
  the provider call (controller 0) pending.
\<close>

definition page1 :: PageData where
  "page1 = \<lparr>pageNumber = 1, content = ''uno''\<rparr>"

definition page2 :: PageData where
  "page2 = \<lparr>pageNumber = 2, content = ''dos''\<rparr>"

definition loaded :: App where
  "loaded = fst (fire 0 (DemoBookLoaded [page1, page2]) (initialApp (Some Running)))"

definition generating :: App where
  "generating = fst (fire 100 (PageSelect page1) loaded)"

definition fetch_failed :: js_error where
  "fetch_failed = \<lparr>name = ''TypeError'', message = ''Failed to fetch''\<rparr>"


definition toggled :: App where
  "toggled = fst (handleToggleCloudMode False generating)"

definition cancelled :: App where
  "cancelled = fst (fire 200 (PageSelect page2) generating)"

definition playing2 :: App where
  "playing2 = fst (fire 250 (Settled generating 1 (Inr (Some ''BBBB'')) None) cancelled)"









text \<open>The history after a run of appends, each a page number and the time of the visit.\<close>

definition visits :: "HistoryItem list \<Rightarrow> (int \<times> int) list \<Rightarrow> HistoryItem list" where
  "visits h vs = foldl (\<lambda>h (p, now). addToHistory h p now) h vs"

text \<open>The exception of \<open>decodeAudioData\<close> for audio it cannot decode.\<close>

definition decode_failed :: js_error where
  "decode_failed = \<lparr>name = ''EncodingError'', message = ''Unable to decode audio data''\<rparr>"

text \<open>A page whose text has 3001 characters.\<close>

definition long_page :: PageData where
  "long_page = \<lparr>pageNumber = 1, content = replicate 3001 (CHR ''a'')\<rparr>"

section \<open>Properties of the parts\<close>

subsection \<open>What a function leaves of the state\<close>

lemma fst_stopCloudAudio: "fst (stopCloudAudio s) = s\<lparr>audioSourceRef := None\<rparr>"
  by (simp add: stopCloudAudio_def split: option.split)

lemma snd_stopCloudAudio:
  "snd (stopCloudAudio s) =
     (case audioSourceRef s of None \<Rightarrow> [] | Some src \<Rightarrow> [SourceStop src, SourceDisconnect src])"
  by (simp add: stopCloudAudio_def split: option.split)

lemma fst_playPage_start:
  "fst (playPage_start page s) =
     s\<lparr>aborted := (case abortControllerRef s of
                      None \<Rightarrow> aborted s | Some old \<Rightarrow> insert old (aborted s)),
       controllers := Suc (controllers s),
       abortControllerRef := Some (controllers s),
       historyUpdates := historyUpdates s @ [pageNumber page],
       audioSourceRef := None,
       isPaused := False,
       activePage := Some (pageNumber page)\<rparr>"
  by (simp add: playPage_start_def Let_def split_beta fst_stopCloudAudio)

lemma snd_playPage_start:
  "snd (playPage_start page s) =
     (case abortControllerRef s of None \<Rightarrow> [] | Some old \<Rightarrow> [AbortSignal old])
     @ [TtsCancel]
     @ (case audioSourceRef s of None \<Rightarrow> [] | Some src \<Rightarrow> [SourceStop src, SourceDisconnect src])"
  by (simp add: playPage_start_def Let_def split_beta snd_stopCloudAudio)

lemma playPage_catch_keeps:
  "history (fst (playPage_catch e s)) = history s
   \<and> historyUpdates (fst (playPage_catch e s)) = historyUpdates s"
  by (simp add: playPage_catch_def showToast_def)

lemma playPage_finally_keeps:
  "history (playPage_finally c s) = history s
   \<and> historyUpdates (playPage_finally c s) = historyUpdates s"
  by (simp add: playPage_finally_def)

lemma playPage_cloud_keeps:
  "history (fst (playPage_cloud r c page s)) = history s
   \<and> historyUpdates (fst (playPage_cloud r c page s)) = historyUpdates s"
  by (simp add: playPage_cloud_def Let_def split_beta newAudioContext_def
        playPage_catch_keeps playPage_finally_keeps
      split: option.split)

lemma playPage_queues:
  "history (fst (playPage r page s)) = history s
   \<and> historyUpdates (fst (playPage r page s)) = historyUpdates s @ [pageNumber page]"
proof (cases "useCloudTTS r")
  case True
  then have "fst (playPage r page s)
               = fst (playPage_cloud r (controllers s) page (fst (playPage_start page s)))"
    by (simp add: playPage_def split_beta)
  then show ?thesis by (simp add: playPage_cloud_keeps fst_playPage_start)
next
  case False
  then show ?thesis by (simp add: playPage_def split_beta fst_playPage_start)
qed

lemma playPage_settled_keeps:
  "history (fst (playPage_settled r c gen dec s)) = history s
   \<and> historyUpdates (fst (playPage_settled r c gen dec s)) = historyUpdates s"
  by (simp add: playPage_settled_def Let_def split_beta playPage_catch_keeps
        playPage_finally_keeps split: option.split)

lemma playPage_resumed_keeps:
  "history (fst (playPage_resumed r c page res s)) = history s
   \<and> historyUpdates (fst (playPage_resumed r c page res s)) = historyUpdates s"
  by (simp add: playPage_resumed_def split_beta playPage_catch_keeps playPage_finally_keeps
        split: option.split)

lemma handleAutoAdvance_keeps: "fst (handleAutoAdvance s) = s"
  by (simp add: handleAutoAdvance_def split: option.split)

lemma speak_onError_keeps:
  "history (fst (speak_onError e s)) = history s
   \<and> historyUpdates (fst (speak_onError e s)) = historyUpdates s"
  by (simp add: speak_onError_def showToast_def)

subsection \<open>Renders\<close>

lemma render_nothing_queued: "historyUpdates s = [] \<Longrightarrow> render now s = (s, [])"
  by (simp add: render_def)

lemma render_one_queued:
  "historyUpdates s = [pn] \<Longrightarrow>
   history (fst (render now s)) = addToHistory (history s) pn now
   \<and> snd (render now s) = [LocalStorageSet (addToHistory (history s) pn now)]"
  by (simp add: render_def Let_def)

lemma render_empties: "historyUpdates (fst (render now s)) = []"
  by (simp add: render_def split_beta)

lemma reachable_nothing_queued: "reachable s \<Longrightarrow> historyUpdates s = []"
  by (induction rule: reachable.induct)
     (simp_all add: initialApp_def fire_def split_beta render_empties)

subsection \<open>The example session, evaluated\<close>

lemmas play_defs = playPage_def playPage_start_def playPage_cloud_def stopCloudAudio_def
  newAudioContext_def addToHistory_def voiceToUse_def isCustomVoice_def sampleToSend_def
  callGenerateSpeech_def VoiceName_Kore_def Let_def playPage_settled_def settle_throws_def
  playPage_catch_def is_abort_def playPage_finally_def showToast_def render_def scrollToPage_def
  hasPageElement_def

lemma loaded_eq:
  "loaded =
     \<lparr>isLanding = False, pages = [page1, page2], activePage = Some 1,
      toast = Some (''Libro demo cargado'', ToastSuccess), viewMode = Scroll,
      flipState = ''idle'', isPlaying = False, isGeneratingAudio = False, isPaused = False,
      selectedVoiceURI = None, playbackRate = 1, userVoiceSample = None,
      useCloudTTS = True, audioFormat = ''MP3'', showIndex = False, showHistory = False,
      history = [], historyUpdates = [], audioCtxRef = None, audioSourceRef = None,
      abortControllerRef = None, controllers = 0, sources = 0, aborted = {},
      AudioContextClass = Some Running\<rparr>"
  by (simp add: loaded_def fire_def handle_def loadDemoBook_def initialApp_def showToast_def render_def page1_def)

lemma generating_eq:
  "generating =
     \<lparr>isLanding = False, pages = [page1, page2], activePage = Some 1,
      toast = Some (''Libro demo cargado'', ToastSuccess), viewMode = Scroll,
      flipState = ''idle'', isPlaying = False, isGeneratingAudio = True, isPaused = False,
      selectedVoiceURI = None, playbackRate = 1, userVoiceSample = None,
      useCloudTTS = True, audioFormat = ''MP3'', showIndex = False, showHistory = False,
      history = [\<lparr>item_pageNumber = 1, timestamp = 100\<rparr>],
      historyUpdates = [], audioCtxRef = Some Running, audioSourceRef = None,
      abortControllerRef = Some 0, controllers = 1, sources = 0, aborted = {},
      AudioContextClass = Some Running\<rparr>"
  by (simp add: generating_def loaded_eq fire_def handle_def handlePageSelect_def play_defs page1_def)


lemma toggled_eq:
  "toggled =
     \<lparr>isLanding = False, pages = [page1, page2], activePage = Some 1,
      toast = Some (''Modo Offline activado'', ToastInfo), viewMode = Scroll,
      flipState = ''idle'', isPlaying = False, isGeneratingAudio = False, isPaused = False,
      selectedVoiceURI = None, playbackRate = 1, userVoiceSample = None,
      useCloudTTS = False, audioFormat = ''MP3'', showIndex = False, showHistory = False,
      history = [\<lparr>item_pageNumber = 1, timestamp = 100\<rparr>],
      historyUpdates = [], audioCtxRef = Some Running, audioSourceRef = None,
      abortControllerRef = Some 0, controllers = 1, sources = 0, aborted = {},
      AudioContextClass = Some Running\<rparr>"
  by (simp add: toggled_def generating_eq handleToggleCloudMode_def play_defs)

lemma cancelled_eq:
  "cancelled =
     \<lparr>isLanding = False, pages = [page1, page2], activePage = Some 2,
      toast = Some (''Libro demo cargado'', ToastSuccess), viewMode = Scroll,
      flipState = ''idle'', isPlaying = False, isGeneratingAudio = True, isPaused = False,
      selectedVoiceURI = None, playbackRate = 1, userVoiceSample = None,
      useCloudTTS = True, audioFormat = ''MP3'', showIndex = False, showHistory = False,
      history = [\<lparr>item_pageNumber = 2, timestamp = 200\<rparr>, \<lparr>item_pageNumber = 1, timestamp = 100\<rparr>],
      historyUpdates = [], audioCtxRef = Some Running, audioSourceRef = None,
      abortControllerRef = Some 1, controllers = 2, sources = 0, aborted = {0},
      AudioContextClass = Some Running\<rparr>"
  by (simp add: cancelled_def generating_eq fire_def handle_def handlePageSelect_def play_defs page1_def page2_def)

lemma playing2_eq:
  "playing2 =
     \<lparr>isLanding = False, pages = [page1, page2], activePage = Some 2,
      toast = Some (''Libro demo cargado'', ToastSuccess), viewMode = Scroll,
      flipState = ''idle'', isPlaying = True, isGeneratingAudio = False, isPaused = False,
      selectedVoiceURI = None, playbackRate = 1, userVoiceSample = None,
      useCloudTTS = True, audioFormat = ''MP3'', showIndex = False, showHistory = False,
      history = [\<lparr>item_pageNumber = 2, timestamp = 200\<rparr>, \<lparr>item_pageNumber = 1, timestamp = 100\<rparr>],
      historyUpdates = [], audioCtxRef = Some Running, audioSourceRef = Some 0,
      abortControllerRef = Some 1, controllers = 2, sources = 1, aborted = {0},
      AudioContextClass = Some Running\<rparr>"
  by (simp add: playing2_def cancelled_eq fire_def handle_def play_defs)









subsection \<open>History, the endpoint, switching mode, advancing\<close>

lemma hd_addToHistory:
  "hd (addToHistory prev p now) = \<lparr>item_pageNumber = p, timestamp = now\<rparr>"
  by (simp add: addToHistory_def)

lemma handler_too_long:
  "length t > MAX_CHARS \<Longrightarrow>
   handler env \<lparr>http_method = ''POST'', body = Parsed (Val t) v\<rparr> =
     (\<lparr>status = 400, payload = JsonError (TooLong (length t) MAX_CHARS)\<rparr>, [ReadBody])"
  by (auto simp: handler_def falsy_def text_length_def MAX_CHARS_def)

lemma distinct_filter_map:
  "distinct (map f xs) \<Longrightarrow> distinct (map f (filter P xs))"
  by (induction xs) auto

lemma distinct_addToHistory:
  assumes "distinct (map item_pageNumber prev)"
  shows "distinct (map item_pageNumber (addToHistory prev p now))"
proof -
  let ?f = "filter (\<lambda>item. item_pageNumber item \<noteq> p) prev"
  have "distinct (map item_pageNumber ?f)" using assms by (rule distinct_filter_map)
  moreover have "p \<notin> set (map item_pageNumber ?f)" by auto
  ultimately have "distinct (map item_pageNumber (\<lparr>item_pageNumber = p, timestamp = now\<rparr> # ?f))"
    by simp
  then have "distinct (take 10 (map item_pageNumber (\<lparr>item_pageNumber = p, timestamp = now\<rparr> # ?f)))"
    by (rule distinct_take)
  then show ?thesis by (simp add: addToHistory_def Let_def take_map)
qed

lemma distinct_visits:
  "distinct (map item_pageNumber h) \<Longrightarrow> distinct (map item_pageNumber (visits h vs))"
  by (induction vs arbitrary: h) (simp_all add: visits_def distinct_addToHistory split_beta)

lemma mode_switch_resets:
  "fst (handleToggleCloudMode useCloud s) =
     s\<lparr>audioSourceRef := None, isPlaying := False, isGeneratingAudio := False, isPaused := False,
       useCloudTTS := useCloud, selectedVoiceURI := None,
       toast := Some (if useCloud then ''Modo IA activado'' else ''Modo Offline activado'', ToastInfo)\<rparr>
   \<and> snd (handleToggleCloudMode useCloud s) =
       TtsCancel # (case audioSourceRef s of None \<Rightarrow> []
                    | Some src \<Rightarrow> [SourceStop src, SourceDisconnect src])"
  by (simp add: handleToggleCloudMode_def Let_def split_beta fst_stopCloudAudio snd_stopCloudAudio
        showToast_def)

lemma mode_switch_aborts_nothing:
  "aborted (fst (handleToggleCloudMode useCloud s)) = aborted s
   \<and> abortControllerRef (fst (handleToggleCloudMode useCloud s)) = abortControllerRef s
   \<and> AbortSignal c \<notin> set (snd (handleToggleCloudMode useCloud s))"
  by (simp add: mode_switch_resets split: option.split)

lemma cleanup_aborts:
  "abortControllerRef s = Some c \<Longrightarrow>
   c \<in> aborted (fst (cleanup s)) \<and> AbortSignal c \<in> set (snd (cleanup s))"
  by (simp add: cleanup_def Let_def split_beta fst_stopCloudAudio split: option.split)




subsection \<open>Requests and provider calls\<close>

lemma playPage_settled_throws:
  "settle_throws gen dec = Some e \<Longrightarrow>
   playPage_settled r c gen dec s
     = (playPage_finally c (fst (playPage_catch e s)), snd (playPage_catch e s))"
  by (simp add: playPage_settled_def split_beta)

lemma reachable_loaded: "reachable loaded"
  unfolding loaded_def by (rule reachable.event) (rule reachable.initial)

lemma reachable_generating: "reachable generating"
  unfolding generating_def by (rule reachable.event) (rule reachable_loaded)

lemma playPage_cloud_no_context:
  "contextFound s = None \<Longrightarrow>
   snd (playPage_cloud r c page s) = [LogError no_web_audio]
   \<and> toast (fst (playPage_cloud r c page s)) = Some (message no_web_audio, ToastError)"
  by (simp add: contextFound_def playPage_cloud_def newAudioContext_def playPage_catch_def
        playPage_finally_def showToast_def no_web_audio_def is_abort_def Let_def
      split: option.splits)

lemma playPage_cloud_suspended:
  "contextFound s = Some Suspended \<Longrightarrow>
   snd (playPage_cloud r c page s)
     = (if audioCtxRef s = None then [AudioContextNew] else []) @ [AudioContextResume]
   \<and> toast (fst (playPage_cloud r c page s)) = toast s
   \<and> isGeneratingAudio (fst (playPage_cloud r c page s))"
  by (auto simp: contextFound_def playPage_cloud_def newAudioContext_def Let_def
      split: option.splits)

lemma playPage_cloud_ready:
  "contextFound s = Some st \<Longrightarrow> st \<noteq> Suspended \<Longrightarrow>
   snd (playPage_cloud r c page s)
     = (if audioCtxRef s = None then [AudioContextNew] else []) @ [callGenerateSpeech r c page]
   \<and> toast (fst (playPage_cloud r c page s)) = toast s
   \<and> isGeneratingAudio (fst (playPage_cloud r c page s))"
  by (auto simp: contextFound_def playPage_cloud_def newAudioContext_def Let_def
      split: option.splits)

lemma cloud_calls_start: "cloud_calls (snd (playPage_start page s)) = []"
  by (simp add: snd_playPage_start cloud_calls_def split: option.split)

lemma playPage_cloud_mode:
  "useCloudTTS r \<Longrightarrow>
   fst (playPage r page s) = fst (playPage_cloud r (controllers s) page (fst (playPage_start page s)))
   \<and> snd (playPage r page s)
       = snd (playPage_start page s)
         @ snd (playPage_cloud r (controllers s) page (fst (playPage_start page s)))"
  by (simp add: playPage_def split_beta)

lemma start_keeps_context:
  "contextFound (fst (playPage_start page s)) = contextFound s
   \<and> toast (fst (playPage_start page s)) = toast s"
  by (simp add: fst_playPage_start contextFound_def split: option.split)




section \<open>The claims\<close>

text \<open>
  C1, as the code has it. A play request for a page gives \<open>setHistory\<close> the updater for
  that page; at the render that follows, the entry of the page is at the front of the
  history, in either mode and whatever becomes of the provider call: no outcome of a
  request (audio, failure, cancellation, a context that does not resume) changes the
  history. When the provider call of a request that was not cancelled fails (a
  rejection other than an abort, an answer without audio, audio that cannot be decoded)
  an error notification is surfaced and \<open>isPlaying\<close> is false, and the on-device error
  callback does the same; a call cancelled by abort (\<open>AbortError\<close>, or the message
  \<open>Aborted\<close>) surfaces nothing.
\<close>

theorem history_entry_at_request:
  assumes "reachable s"
  shows "history (fst (render now (fst (playPage r page s))))
           = addToHistory (history s) (pageNumber page) now
   \<and> hd (history (fst (render now (fst (playPage r page s)))))
       = \<lparr>item_pageNumber = pageNumber page, timestamp = now\<rparr>
   \<and> history (fst (render now (fst (playPage_settled r c gen dec s)))) = history s
   \<and> history (fst (render now (fst (playPage_resumed r c page res s)))) = history s
   \<and> history (fst (render now (fst (speak_onError e s)))) = history s
   \<and> toast (fst (speak_onError e s)) = Some (''Error en lector local'', ToastError)
   \<and> \<not> isPlaying (fst (speak_onError e s))
   \<and> (c \<notin> aborted s \<and> settle_throws gen dec = Some e \<and> \<not> is_abort e \<longrightarrow>
        toast (fst (playPage_settled r c gen dec s))
          = Some (if message e = [] then ''Error generando audio.'' else message e, ToastError)
        \<and> \<not> isPlaying (fst (playPage_settled r c gen dec s)))
   \<and> (settle_throws gen dec = Some e \<and> is_abort e \<longrightarrow>
        toast (fst (playPage_settled r c gen dec s)) = toast s
        \<and> snd (playPage_settled r c gen dec s) = [])"
proof -
  from assms have q: "historyUpdates s = []" by (rule reachable_nothing_queued)
  have "historyUpdates (fst (playPage r page s)) = [pageNumber page]"
    using q by (simp add: playPage_queues)
  from render_one_queued[OF this, of now]
  have 1: "history (fst (render now (fst (playPage r page s))))
           = addToHistory (history s) (pageNumber page) now"
    by (simp add: playPage_queues)
  have 2: "history (fst (render now (fst (playPage_settled r c gen dec s)))) = history s"
    using q by (simp add: render_nothing_queued playPage_settled_keeps)
  have 3: "history (fst (render now (fst (playPage_resumed r c page res s)))) = history s"
    using q by (simp add: render_nothing_queued playPage_resumed_keeps)
  have 4: "history (fst (render now (fst (speak_onError e s)))) = history s"
    using q by (simp add: render_nothing_queued speak_onError_keeps)
  have 5: "toast (fst (speak_onError e s)) = Some (''Error en lector local'', ToastError)
           \<and> \<not> isPlaying (fst (speak_onError e s))"
    by (simp add: speak_onError_def showToast_def)
  have 6: "c \<notin> aborted s \<and> settle_throws gen dec = Some e \<and> \<not> is_abort e \<longrightarrow>
        toast (fst (playPage_settled r c gen dec s))
          = Some (if message e = [] then ''Error generando audio.'' else message e, ToastError)
        \<and> \<not> isPlaying (fst (playPage_settled r c gen dec s))"
    by (simp add: playPage_settled_throws playPage_catch_def playPage_finally_def showToast_def)
  have 7: "settle_throws gen dec = Some e \<and> is_abort e \<longrightarrow>
        toast (fst (playPage_settled r c gen dec s)) = toast s
        \<and> snd (playPage_settled r c gen dec s) = []"
    by (simp add: playPage_settled_throws playPage_catch_def playPage_finally_def)
  from 1 2 3 4 5 6 7 show ?thesis by (simp add: hd_addToHistory)
qed

text \<open>
  C1 as stated fails: in the example session the history, empty before the request for
  page 1, holds the entry of page 1 while the provider call is pending, and still holds
  it when the call has failed and the error is surfaced.
\<close>

theorem history_entry_despite_failure:
  "history loaded = []
   \<and> history generating = [\<lparr>item_pageNumber = 1, timestamp = 100\<rparr>]
   \<and> history (fst (fire 150 (Settled loaded 0 (Inl fetch_failed) None) generating))
       = [\<lparr>item_pageNumber = 1, timestamp = 100\<rparr>]
   \<and> toast (fst (fire 150 (Settled loaded 0 (Inl fetch_failed) None) generating))
       = Some (''Failed to fetch'', ToastError)"
  by (simp add: loaded_eq generating_eq fetch_failed_def fire_def handle_def play_defs)

theorem history_entry_at_request_witness:
  "history (fst (render 100 (fst (playPage loaded page1 loaded))))
     = [\<lparr>item_pageNumber = 1, timestamp = 100\<rparr>]
   \<and> history (fst (render 150 (fst (playPage_settled loaded 0 (Inl fetch_failed) None generating))))
       = [\<lparr>item_pageNumber = 1, timestamp = 100\<rparr>]
   \<and> toast (fst (playPage_settled loaded 0 (Inl fetch_failed) None generating))
       = Some (''Failed to fetch'', ToastError)
   \<and> \<not> isPlaying (fst (playPage_settled loaded 0 (Inl fetch_failed) None generating))
   \<and> toast (fst (playPage_settled loaded 0
                (Inl \<lparr>name = ''AbortError'', message = ''The user aborted a request.''\<rparr>)
                None generating))
       = Some (''Libro demo cargado'', ToastSuccess)"
  using history_entry_at_request[OF reachable_loaded, of 100 loaded page1 0 "Inl fetch_failed"
      None None fetch_failed]
    history_entry_at_request[OF reachable_generating, of 150 loaded page1 0 "Inl fetch_failed"
      None None fetch_failed]
    history_entry_at_request[OF reachable_generating, of 150 loaded page1 0
      "Inl \<lparr>name = ''AbortError'', message = ''The user aborted a request.''\<rparr>"
      None None "\<lparr>name = ''AbortError'', message = ''The user aborted a request.''\<rparr>"]
  by (simp add: loaded_eq generating_eq fetch_failed_def addToHistory_def page1_def
        settle_throws_def is_abort_def)

text \<open>
  C2, as the code has it. A cloud request makes no check of the length of the text.
  Where an audio context is at hand (there is one, or the browser makes one) and it is
  not suspended, \<open>playPage\<close> calls \<open>generateSpeech\<close> once, with the whole text of the
  page, and surfaces nothing. Where the context is suspended, \<open>resume()\<close> is awaited
  first and the same call is made when it has resumed; a \<open>resume()\<close> that fails
  with an exception other than an abort is surfaced as an error and no call is made.
  Where no audio context can be made, that error is surfaced and no call is made. None of this depends on the text. The ceiling
  of 3000 characters is the endpoint's: a POST whose text is longer is answered 400 with
  the too-long message, the provider not contacted.
\<close>

theorem cloud_path_invoked_whatever_the_length:
  assumes "useCloudTTS r"
  shows "(contextFound s = None \<longrightarrow>
            cloud_calls (snd (playPage r page s)) = []
            \<and> toast (fst (playPage r page s)) = Some (message no_web_audio, ToastError))
   \<and> (contextFound s = Some Suspended \<longrightarrow>
            cloud_calls (snd (playPage r page s)) = []
            \<and> AudioContextResume \<in> set (snd (playPage r page s))
            \<and> toast (fst (playPage r page s)) = toast s)
   \<and> (contextFound s \<noteq> None \<and> contextFound s \<noteq> Some Suspended \<longrightarrow>
            cloud_calls (snd (playPage r page s))
              = [GenerateSpeech (content page) (voiceToUse r) (audioFormat r) (controllers s)
                   (sampleToSend r)]
            \<and> toast (fst (playPage r page s)) = toast s)
   \<and> snd (playPage_resumed r c page None s')
       = [GenerateSpeech (content page) (voiceToUse r) (audioFormat r) c (sampleToSend r)]
   \<and> toast (fst (playPage_resumed r c page None s')) = toast s'
   \<and> (\<not> is_abort e \<longrightarrow>
        snd (playPage_resumed r c page (Some e) s') = [LogError e]
        \<and> toast (fst (playPage_resumed r c page (Some e) s'))
            = Some (if message e = [] then ''Error generando audio.'' else message e, ToastError))
   \<and> (length t > MAX_CHARS \<longrightarrow>
        handler env \<lparr>http_method = ''POST'', body = Parsed (Val t) v\<rparr> =
          (\<lparr>status = 400, payload = JsonError (TooLong (length t) MAX_CHARS)\<rparr>, [ReadBody]))"
proof -
  let ?s4 = "fst (playPage_start page s)"
  note m = playPage_cloud_mode[OF assms, of page s]
  have 1: "contextFound s = None \<longrightarrow>
            cloud_calls (snd (playPage r page s)) = []
            \<and> toast (fst (playPage r page s)) = Some (message no_web_audio, ToastError)"
  proof
    assume "contextFound s = None"
    then have "contextFound ?s4 = None" by (simp add: start_keeps_context)
    from playPage_cloud_no_context[OF this, of r "controllers s" page] m cloud_calls_start[of page s]
    show "cloud_calls (snd (playPage r page s)) = []
            \<and> toast (fst (playPage r page s)) = Some (message no_web_audio, ToastError)"
      by (simp add: cloud_calls_def)
  qed
  have 2: "contextFound s = Some Suspended \<longrightarrow>
            cloud_calls (snd (playPage r page s)) = []
            \<and> AudioContextResume \<in> set (snd (playPage r page s))
            \<and> toast (fst (playPage r page s)) = toast s"
  proof
    assume "contextFound s = Some Suspended"
    then have "contextFound ?s4 = Some Suspended" by (simp add: start_keeps_context)
    from playPage_cloud_suspended[OF this, of r "controllers s" page] m cloud_calls_start[of page s]
    show "cloud_calls (snd (playPage r page s)) = []
            \<and> AudioContextResume \<in> set (snd (playPage r page s))
            \<and> toast (fst (playPage r page s)) = toast s"
      by (simp add: cloud_calls_def start_keeps_context)
  qed
  have 3: "contextFound s \<noteq> None \<and> contextFound s \<noteq> Some Suspended \<longrightarrow>
            cloud_calls (snd (playPage r page s))
              = [GenerateSpeech (content page) (voiceToUse r) (audioFormat r) (controllers s)
                   (sampleToSend r)]
            \<and> toast (fst (playPage r page s)) = toast s"
  proof
    assume "contextFound s \<noteq> None \<and> contextFound s \<noteq> Some Suspended"
    then obtain st where "contextFound ?s4 = Some st" and "st \<noteq> Suspended"
      by (auto simp: start_keeps_context)
    from playPage_cloud_ready[OF this, of r "controllers s" page] m cloud_calls_start[of page s]
    show "cloud_calls (snd (playPage r page s))
              = [GenerateSpeech (content page) (voiceToUse r) (audioFormat r) (controllers s)
                   (sampleToSend r)]
            \<and> toast (fst (playPage r page s)) = toast s"
      by (simp add: cloud_calls_def start_keeps_context callGenerateSpeech_def)
  qed
  have 4: "snd (playPage_resumed r c page None s')
       = [GenerateSpeech (content page) (voiceToUse r) (audioFormat r) c (sampleToSend r)]
   \<and> toast (fst (playPage_resumed r c page None s')) = toast s'"
    by (simp add: playPage_resumed_def callGenerateSpeech_def)
  have 5: "\<not> is_abort e \<longrightarrow>
        snd (playPage_resumed r c page (Some e) s') = [LogError e]
        \<and> toast (fst (playPage_resumed r c page (Some e) s'))
            = Some (if message e = [] then ''Error generando audio.'' else message e, ToastError)"
    by (simp add: playPage_resumed_def playPage_catch_def playPage_finally_def showToast_def)
  from 1 2 3 4 5 show ?thesis by (simp add: handler_too_long)
qed

text \<open>
  C2 as stated fails: for a page of 3001 characters the cloud path is invoked with the
  whole text, and no error is surfaced.
\<close>

theorem long_text_reaches_cloud_path:
  "length (content long_page) = 3001
   \<and> cloud_calls (snd (playPage loaded long_page loaded))
       = [GenerateSpeech (content long_page) ''Kore'' ''MP3'' 0 None]
   \<and> toast (fst (playPage loaded long_page loaded))
       = Some (''Libro demo cargado'', ToastSuccess)"
  by (simp add: long_page_def loaded_eq play_defs cloud_calls_def)

theorem cloud_path_invoked_whatever_the_length_witness:
  "cloud_calls (snd (playPage loaded long_page loaded))
     = [GenerateSpeech (replicate 3001 (CHR ''a'')) ''Kore'' ''MP3'' 0 None]
   \<and> snd (playPage_resumed loaded 0 long_page None generating)
     = [GenerateSpeech (replicate 3001 (CHR ''a'')) ''Kore'' ''MP3'' 0 None]
   \<and> toast (fst (playPage_resumed loaded 0 long_page (Some fetch_failed) generating))
     = Some (''Failed to fetch'', ToastError)
   \<and> handler \<lparr>API_KEY = Some ''k'', generateContent = (\<lambda>k t v. Inr (Some ''AAAA''))\<rparr>
        \<lparr>http_method = ''POST'', body = Parsed (Val (replicate 3001 (CHR ''a''))) (Val ''Kore'')\<rparr>
       = (\<lparr>status = 400, payload = JsonError (TooLong 3001 3000)\<rparr>, [ReadBody])"
  using cloud_path_invoked_whatever_the_length[of loaded loaded long_page 0 generating
      fetch_failed "replicate 3001 (CHR ''a'')"
      "\<lparr>API_KEY = Some ''k'', generateContent = (\<lambda>k t v. Inr (Some ''AAAA''))\<rparr>" "Val ''Kore''"]
  by (simp add: loaded_eq long_page_def voiceToUse_def isCustomVoice_def sampleToSend_def
        VoiceName_Kore_def MAX_CHARS_def contextFound_def fetch_failed_def is_abort_def)




text \<open>
  C4, at an input where the code departs from it. The session is generating: the
  provider call for page 1 is pending. Switching to on-device mode cancels on-device
  speech and resets the three flags, so that the session shows Idle, but aborts nothing:
  controller 0 stays the current one, its signal not aborted. When the pending call
  then answers with audio, the audio is started and the session is Playing, in
  on-device mode. (What the switch does do is \<open>mode_switch_resets\<close> above: an existing
  source node is stopped and disconnected, the flags are false.)
\<close>

theorem mode_switch_leaves_call_in_flight:
  "session_state generating = Generating
   \<and> snd (handleToggleCloudMode False generating) = [TtsCancel]
   \<and> session_state toggled = Idle
   \<and> abortControllerRef toggled = Some 0 \<and> 0 \<notin> aborted toggled
   \<and> snd (playPage_settled loaded 0 (Inr (Some ''AAAA'')) None toggled) = [SourceStart 0 1]
   \<and> session_state (fst (playPage_settled loaded 0 (Inr (Some ''AAAA'')) None toggled)) = Playing
   \<and> \<not> useCloudTTS (fst (playPage_settled loaded 0 (Inr (Some ''AAAA'')) None toggled))"
  by (simp add: toggled_eq generating_eq loaded_eq session_state_def handleToggleCloudMode_def
        stopCloudAudio_def play_defs)

text \<open>
  C5, at an input where the code departs from it. The call for page 1 was cancelled by
  the request for page 2; its audio arrives all the same and cannot be decoded. The
  exception is not an abort, so the \<open>catch\<close> block, which does not look at the signal,
  surfaces it and resets \<open>isPlaying\<close>, although the request was cancelled: so while
  the call for page 2 is pending, and so when the audio of page 2 already plays, where
  the session then shows Idle with the source node of page 2 still in place.
\<close>

theorem cancelled_request_error_surfaced:
  "0 \<in> aborted cancelled
   \<and> fire 210 (Settled loaded 0 (Inr (Some ''AAAA'')) (Some decode_failed)) cancelled
       = (cancelled\<lparr>isPlaying := False,
                     toast := Some (''Unable to decode audio data'', ToastError)\<rparr>,
          [LogError decode_failed])
   \<and> 0 \<in> aborted playing2 \<and> session_state playing2 = Playing
   \<and> fire 260 (Settled loaded 0 (Inr (Some ''AAAA'')) (Some decode_failed)) playing2
       = (playing2\<lparr>isPlaying := False,
                    toast := Some (''Unable to decode audio data'', ToastError)\<rparr>,
          [LogError decode_failed])
   \<and> session_state (playing2\<lparr>isPlaying := False,
                    toast := Some (''Unable to decode audio data'', ToastError)\<rparr>) = Idle
   \<and> audioSourceRef playing2 = Some 0"
  by (simp add: cancelled_eq playing2_eq decode_failed_def fire_def handle_def play_defs
        session_state_def)

text \<open>
  C6. After an append the history has at most 10 entries; it has no two entries with
  the same page number if the history before had none, and so never has in a history
  grown from the empty one by appends; the entry of the page visited is at the front,
  with the time of this visit, and that page occurs nowhere behind it, the other
  entries following in their old order.
\<close>

theorem history_capped_distinct_front:
  "length (addToHistory prev p now) \<le> 10
   \<and> (distinct (map item_pageNumber prev) \<longrightarrow>
        distinct (map item_pageNumber (addToHistory prev p now)))
   \<and> distinct (map item_pageNumber (visits [] vs))
   \<and> addToHistory prev p now
       = \<lparr>item_pageNumber = p, timestamp = now\<rparr>
         # take 9 (filter (\<lambda>item. item_pageNumber item \<noteq> p) prev)
   \<and> p \<notin> item_pageNumber ` set (tl (addToHistory prev p now))"
proof -
  have "p \<notin> item_pageNumber ` set (take 9 (filter (\<lambda>item. item_pageNumber item \<noteq> p) prev))"
    by (auto dest: in_set_takeD)
  moreover have "distinct (map item_pageNumber (visits [] vs))"
    by (rule distinct_visits) simp
  ultimately show ?thesis
    by (simp add: distinct_addToHistory) (simp add: addToHistory_def Let_def)
qed

theorem history_capped_distinct_front_witness:
  "addToHistory [\<lparr>item_pageNumber = 2, timestamp = 200\<rparr>, \<lparr>item_pageNumber = 1, timestamp = 100\<rparr>] 1 300
     = [\<lparr>item_pageNumber = 1, timestamp = 300\<rparr>, \<lparr>item_pageNumber = 2, timestamp = 200\<rparr>]
   \<and> distinct (map item_pageNumber
        (addToHistory [\<lparr>item_pageNumber = 2, timestamp = 200\<rparr>, \<lparr>item_pageNumber = 1, timestamp = 100\<rparr>] 1 300))"
  using history_capped_distinct_front
    [of "[\<lparr>item_pageNumber = 2, timestamp = 200\<rparr>, \<lparr>item_pageNumber = 1, timestamp = 100\<rparr>]" 1 300 "[]"]
  by simp




text \<open>
  C8. The endpoint tells the two errors apart by status. A POST whose text is longer
  than 3000 characters is answered 400 with the too-long message. A POST whose text
  passes that check (not empty, at most 3000 characters), made when \<open>API_KEY\<close> is absent
  or empty, is answered 500 with the configuration message. In both cases the handler
  answers at once: the provider is not contacted and nothing is tried again.
\<close>

theorem handler_status_distinction:
  "(length t > MAX_CHARS \<longrightarrow>
      handler env \<lparr>http_method = ''POST'', body = Parsed (Val t) v\<rparr> =
        (\<lparr>status = 400, payload = JsonError (TooLong (length t) MAX_CHARS)\<rparr>, [ReadBody]))
   \<and> (t \<noteq> [] \<and> length t \<le> MAX_CHARS \<and> (API_KEY env = None \<or> API_KEY env = Some []) \<longrightarrow>
      handler env \<lparr>http_method = ''POST'', body = Parsed (Val t) v\<rparr> =
        (\<lparr>status = 500, payload = JsonError MissingApiKey\<rparr>, [ReadBody]))
   \<and> (length t > MAX_CHARS \<or> API_KEY env = None \<or> API_KEY env = Some [] \<longrightarrow>
      \<not> contacts_provider
          (snd (handler env \<lparr>http_method = ''POST'', body = Parsed (Val t) v\<rparr>)))"
  by (auto simp: handler_def falsy_def text_length_def)

theorem handler_status_distinction_witness:
  "handler \<lparr>API_KEY = None, generateContent = (\<lambda>k t v. Inr (Some ''AAAA''))\<rparr>
     \<lparr>http_method = ''POST'', body = Parsed (Val (replicate 3001 (CHR ''a''))) (Val ''Kore'')\<rparr>
     = (\<lparr>status = 400, payload = JsonError (TooLong 3001 3000)\<rparr>, [ReadBody])
   \<and> handler \<lparr>API_KEY = None, generateContent = (\<lambda>k t v. Inr (Some ''AAAA''))\<rparr>
     \<lparr>http_method = ''POST'', body = Parsed (Val ''hola'') (Val ''Kore'')\<rparr>
     = (\<lparr>status = 500, payload = JsonError MissingApiKey\<rparr>, [ReadBody])
   \<and> \<not> contacts_provider
         (snd (handler \<lparr>API_KEY = None, generateContent = (\<lambda>k t v. Inr (Some ''AAAA''))\<rparr>
                 \<lparr>http_method = ''POST'', body = Parsed (Val ''hola'') (Val ''Kore'')\<rparr>))"
  using handler_status_distinction[of "replicate 3001 (CHR ''a'')"
      "\<lparr>API_KEY = None, generateContent = (\<lambda>k t v. Inr (Some ''AAAA''))\<rparr>" "Val ''Kore''"]
    handler_status_distinction[of "''hola''"
      "\<lparr>API_KEY = None, generateContent = (\<lambda>k t v. Inr (Some ''AAAA''))\<rparr>" "Val ''Kore''"]
  by (simp add: MAX_CHARS_def)

text \<open>
  C9. A request whose method is not POST is answered 405 "Method not allowed" at once:
  the body is not read, nothing is validated and the provider is not contacted (the run
  has no effect at all).
\<close>

theorem handler_method_not_allowed:
  "http_method req \<noteq> ''POST'' \<Longrightarrow>
   handler env req = (\<lparr>status = 405, payload = PlainText ''Method not allowed''\<rparr>, [])
   \<and> \<not> contacts_provider (snd (handler env req))"
  by (simp add: handler_def)

theorem handler_method_not_allowed_witness:
  "handler \<lparr>API_KEY = Some ''k'', generateContent = (\<lambda>k t v. Inr (Some ''AAAA''))\<rparr>
           \<lparr>http_method = ''GET'', body = Parsed (Val ''hola'') (Val ''Kore'')\<rparr>
   = (\<lparr>status = 405, payload = PlainText ''Method not allowed''\<rparr>, [])
   \<and> \<not> contacts_provider
         (snd (handler \<lparr>API_KEY = Some ''k'', generateContent = (\<lambda>k t v. Inr (Some ''AAAA''))\<rparr>
                 \<lparr>http_method = ''GET'', body = Parsed (Val ''hola'') (Val ''Kore'')\<rparr>))"
  using handler_method_not_allowed
    [of "\<lparr>http_method = ''GET'', body = Parsed (Val ''hola'') (Val ''Kore'')\<rparr>"
        "\<lparr>API_KEY = Some ''k'', generateContent = (\<lambda>k t v. Inr (Some ''AAAA''))\<rparr>"]
  by simp

text \<open>
  C10, at the inputs where the code departs from it. A POST whose text is missing or
  \<open>null\<close> enters the branch of the too-long answer, but building its message reads
  \<open>text.length\<close>, which throws; the \<open>catch\<close> block answers 500 with the TypeError's
  message. Only the empty string gets the answer 400 with the too-long message.
\<close>

theorem handler_missing_text:
  "handler env \<lparr>http_method = ''POST'', body = Parsed Undefined v\<rparr>
     = (\<lparr>status = 500,
         payload = JsonError (Message (message (cannot_read_length ''undefined'')))\<rparr>,
        [ReadBody, ConsoleError (cannot_read_length ''undefined'')])
   \<and> handler env \<lparr>http_method = ''POST'', body = Parsed Null v\<rparr>
     = (\<lparr>status = 500,
         payload = JsonError (Message (message (cannot_read_length ''null'')))\<rparr>,
        [ReadBody, ConsoleError (cannot_read_length ''null'')])
   \<and> handler env \<lparr>http_method = ''POST'', body = Parsed (Val []) v\<rparr>
     = (\<lparr>status = 400, payload = JsonError (TooLong 0 MAX_CHARS)\<rparr>, [ReadBody])"
  by (simp add: handler_def falsy_def text_length_def caught_def cannot_read_length_def)


end
